theory Spec2Isabelle
  imports Main
begin

section \<open>JavaScript values that the router reads\<close>

text \<open>
  Header values, environment variables and the identity claims of a verified token are
  JavaScript strings that may be absent: \<open>None\<close> is \<open>undefined\<close>. The empty string and
  \<open>undefined\<close> are the falsy values of this type.
\<close>

type_synonym jsstr = "string option"

fun truthy :: "jsstr \<Rightarrow> bool" where
  "truthy None = False"
| "truthy (Some s) = (s \<noteq> [])"

text \<open>\<open>a || b\<close>\<close>

definition js_or :: "jsstr \<Rightarrow> jsstr \<Rightarrow> jsstr" where
  "js_or a b = (if truthy a then a else b)"

text \<open>What a template literal or a query parameter prints for the value.\<close>

fun js_string :: "jsstr \<Rightarrow> string" where
  "js_string None = ''undefined''"
| "js_string (Some s) = s"

text \<open>\<open>s.split(sep)\<close> for a one-character separator; \<open>''''.split(sep)\<close> is \<open>['''']\<close>.\<close>

fun js_split :: "char \<Rightarrow> string \<Rightarrow> string list" where
  "js_split sep [] = [[]]"
| "js_split sep (c # cs) =
     (if c = sep then [] # js_split sep cs
      else (case js_split sep cs of
              [] \<Rightarrow> [[c]]
            | w # ws \<Rightarrow> (c # w) # ws))"

text \<open>\<open>xs[i]\<close>: \<open>undefined\<close> out of range.\<close>

definition js_index :: "string list \<Rightarrow> nat \<Rightarrow> jsstr" where
  "js_index xs i = (if i < length xs then Some (xs ! i) else None)"

section \<open>The row store\<close>

text \<open>
  A row maps column names to values; a table is the list of its rows. The six tables
  are the ones the deletion routes name in \<open>supabase.from(...)\<close>.
\<close>

type_synonym row = "(string \<times> string) list"

definition col :: "row \<Rightarrow> string \<Rightarrow> string option" where
  "col r c = map_of r c"

datatype table = Posts | Likes | Comments | Bookmarks | Subscribers | Users

text \<open>
  Filters of a query: \<open>.eq(column, value)\<close> and the two-way disjunction that
  \<open>.or(`subscriber_id.eq.${userId},creator_id.eq.${userId}`)\<close> denotes. The store reads
  that expression as the disjunction of its two equalities when the identifier holds none
  of the reserved characters of the filter grammar; identifiers are taken to be of that
  kind throughout.
\<close>

datatype row_filter = Eq string string | Or row_filter row_filter

fun matches :: "row_filter \<Rightarrow> row \<Rightarrow> bool" where
  "matches (Eq c v) r = (col r c = Some v)"
| "matches (Or f g) r = (matches f r \<or> matches g r)"

text \<open>
  The operations a request can issue against the store and the identity service. The
  state records them in the order they are issued.
\<close>

datatype call = Select table row_filter | Delete table row_filter | AuthAdminDeleteUser string

record store =
  posts :: "row list"
  likes :: "row list"
  comments :: "row list"
  bookmarks :: "row list"
  subscribers :: "row list"
  users :: "row list"
  auth_users :: "string list"
  calls :: "call list"

fun rows :: "table \<Rightarrow> store \<Rightarrow> row list" where
  "rows Posts s = posts s"
| "rows Likes s = likes s"
| "rows Comments s = comments s"
| "rows Bookmarks s = bookmarks s"
| "rows Subscribers s = subscribers s"
| "rows Users s = users s"

fun set_rows :: "table \<Rightarrow> row list \<Rightarrow> store \<Rightarrow> store" where
  "set_rows Posts rs s = s\<lparr>posts := rs\<rparr>"
| "set_rows Likes rs s = s\<lparr>likes := rs\<rparr>"
| "set_rows Comments rs s = s\<lparr>comments := rs\<rparr>"
| "set_rows Bookmarks rs s = s\<lparr>bookmarks := rs\<rparr>"
| "set_rows Subscribers rs s = s\<lparr>subscribers := rs\<rparr>"
| "set_rows Users rs s = s\<lparr>users := rs\<rparr>"

section \<open>The environment of a request\<close>

record token_payload =
  claim_userId :: jsstr
  claim_id :: jsstr

record process_env =
  SUPABASE_URL :: jsstr
  SUPABASE_SERVICE_KEY :: jsstr
  JWT_SECRET :: jsstr

text \<open>
  What the handlers cannot decide themselves: whether the store reports an error for a
  delete on a table (and with which message), whether the identity service fails, and
  which tokens \<open>jwt.verify\<close> accepts under a secret. Each table is deleted from at most
  once in a request, so an error per table covers every way a run can fail.
\<close>

record env =
  delete_error :: "table \<Rightarrow> string option"
  auth_delete_error :: "string option"
  jwt_verify :: "string \<Rightarrow> string \<Rightarrow> token_payload option"
  process_env :: process_env

text \<open>
  \<open>await supabase.from(t).delete().<filter>\<close>: the call is recorded; when the store
  reports an error no row is removed, otherwise every matching row is, and removing no row
  is not an error.
\<close>

definition supabase_delete :: "env \<Rightarrow> table \<Rightarrow> row_filter \<Rightarrow> store \<Rightarrow> string option \<times> store" where
  "supabase_delete env t f s =
     (let s1 = s\<lparr>calls := calls s @ [Delete t f]\<rparr>
      in case delete_error env t of
           Some msg \<Rightarrow> (Some msg, s1)
         | None \<Rightarrow> (None, set_rows t (filter (\<lambda>r. \<not> matches f r) (rows t s1)) s1))"

text \<open>\<open>await supabase.auth.admin.deleteUser(userId)\<close>\<close>

definition auth_admin_deleteUser :: "env \<Rightarrow> string \<Rightarrow> store \<Rightarrow> string option \<times> store" where
  "auth_admin_deleteUser env uid s =
     (let s1 = s\<lparr>calls := calls s @ [AuthAdminDeleteUser uid]\<rparr>
      in case auth_delete_error env of
           Some msg \<Rightarrow> (Some msg, s1)
         | None \<Rightarrow> (None, s1\<lparr>auth_users := removeAll uid (auth_users s1)\<rparr>))"

section \<open>Requests and responses\<close>

record request =
  authorization :: jsstr
  param_userId :: string

record response =
  status :: nat
  body :: "(string \<times> string) list"

definition access_denied :: response where
  "access_denied = \<lparr>status = 401, body = [(''message'', ''Access denied'')]\<rparr>"

definition invalid_token :: response where
  "invalid_token = \<lparr>status = 403, body = [(''message'', ''Invalid token'')]\<rparr>"

definition only_own_account :: response where
  "only_own_account =
     \<lparr>status = 403, body = [(''message'', ''You can only delete your own account'')]\<rparr>"

definition account_deleted :: response where
  "account_deleted = \<lparr>status = 200, body = [(''message'', ''Account successfully deleted'')]\<rparr>"

definition error_deleting :: "string \<Rightarrow> response" where
  "error_deleting msg =
     \<lparr>status = 500, body = [(''message'', ''Error deleting account''), (''error'', msg)]\<rparr>"

section \<open>The middleware \<open>authenticateToken\<close>\<close>

text \<open>\<open>authHeader && authHeader.split(' ')[1]\<close>\<close>

definition header_token :: "jsstr \<Rightarrow> jsstr" where
  "header_token authHeader =
     (if truthy authHeader
      then js_index (js_split (CHR '' '') (js_string authHeader)) 1
      else authHeader)"

text \<open>\<open>process.env.JWT_SECRET || 'your-secret-key'\<close>\<close>

definition jwt_secret :: "env \<Rightarrow> string" where
  "jwt_secret env = js_string (js_or (JWT_SECRET (process_env env)) (Some ''your-secret-key''))"

definition authenticateToken :: "env \<Rightarrow> request \<Rightarrow> response + token_payload" where
  "authenticateToken env req =
     (let authHeader = authorization req;
          token = header_token authHeader
      in if \<not> truthy token then Inl access_denied
         else (case jwt_verify env (js_string token) (jwt_secret env) of
                 None \<Rightarrow> Inl invalid_token
               | Some user \<Rightarrow> Inr user))"

section \<open>The two deletion handlers\<close>

text \<open>
  The body of \<open>router.delete('/profile', authenticateToken, ...)\<close>. Console output is
  not part of the model. A thrown error is caught by the handler's \<open>catch\<close>, which
  answers 500 with the error's message.
\<close>

definition delete_profile :: "env \<Rightarrow> token_payload \<Rightarrow> store \<Rightarrow> response \<times> store" where
  "delete_profile env user s0 =
     (let userId = js_string (js_or (claim_userId user) (claim_id user)) in
      case supabase_delete env Posts (Eq ''user_id'' userId) s0 of
        (Some postsError, s1) \<Rightarrow> (error_deleting postsError, s1)
      | (None, s1) \<Rightarrow>
     (case supabase_delete env Likes (Eq ''user_id'' userId) s1 of
        (Some likesError, s2) \<Rightarrow> (error_deleting likesError, s2)
      | (None, s2) \<Rightarrow>
     (case supabase_delete env Comments (Eq ''user_id'' userId) s2 of
        (Some commentsError, s3) \<Rightarrow> (error_deleting commentsError, s3)
      | (None, s3) \<Rightarrow>
     (case supabase_delete env Bookmarks (Eq ''user_id'' userId) s3 of
        (Some bookmarksError, s4) \<Rightarrow> (error_deleting bookmarksError, s4)
      | (None, s4) \<Rightarrow>
     (case supabase_delete env Subscribers
             (Or (Eq ''subscriber_id'' userId) (Eq ''creator_id'' userId)) s4 of
        (Some subscribersError, s5) \<Rightarrow> (error_deleting subscribersError, s5)
      | (None, s5) \<Rightarrow>
     (case supabase_delete env Users (Eq ''id'' userId) s5 of
        (Some userError, s6) \<Rightarrow> (error_deleting userError, s6)
      | (None, s6) \<Rightarrow>
          (account_deleted, snd (auth_admin_deleteUser env userId s6))))))))"

text \<open>The body of \<open>router.delete('/:userId', authenticateToken, ...)\<close>.\<close>

definition delete_by_userId ::
  "env \<Rightarrow> string \<Rightarrow> token_payload \<Rightarrow> store \<Rightarrow> response \<times> store" where
  "delete_by_userId env userId user s0 =
     (let loggedInUserId = js_or (claim_userId user) (claim_id user) in
      if Some userId \<noteq> loggedInUserId then (only_own_account, s0)
      else
     (case supabase_delete env Posts (Eq ''user_id'' userId) s0 of
        (Some postsError, s1) \<Rightarrow> (error_deleting postsError, s1)
      | (None, s1) \<Rightarrow>
     (case supabase_delete env Likes (Eq ''user_id'' userId) s1 of
        (Some likesError, s2) \<Rightarrow> (error_deleting likesError, s2)
      | (None, s2) \<Rightarrow>
     (case supabase_delete env Comments (Eq ''user_id'' userId) s2 of
        (Some commentsError, s3) \<Rightarrow> (error_deleting commentsError, s3)
      | (None, s3) \<Rightarrow>
     (case supabase_delete env Bookmarks (Eq ''user_id'' userId) s3 of
        (Some bookmarksError, s4) \<Rightarrow> (error_deleting bookmarksError, s4)
      | (None, s4) \<Rightarrow>
     (case supabase_delete env Subscribers
             (Or (Eq ''subscriber_id'' userId) (Eq ''creator_id'' userId)) s4 of
        (Some subscribersError, s5) \<Rightarrow> (error_deleting subscribersError, s5)
      | (None, s5) \<Rightarrow>
     (case supabase_delete env Users (Eq ''id'' userId) s5 of
        (Some userError, s6) \<Rightarrow> (error_deleting userError, s6)
      | (None, s6) \<Rightarrow>
          (account_deleted, snd (auth_admin_deleteUser env userId s6)))))))))"

text \<open>The routes: the middleware answers itself or hands the verified payload on.\<close>

definition route_delete_profile :: "env \<Rightarrow> request \<Rightarrow> store \<Rightarrow> response \<times> store" where
  "route_delete_profile env req s =
     (case authenticateToken env req of
        Inl res \<Rightarrow> (res, s)
      | Inr user \<Rightarrow> delete_profile env user s)"

definition route_delete_userId :: "env \<Rightarrow> request \<Rightarrow> store \<Rightarrow> response \<times> store" where
  "route_delete_userId env req s =
     (case authenticateToken env req of
        Inl res \<Rightarrow> (res, s)
      | Inr user \<Rightarrow> delete_by_userId env (param_userId req) user s)"

section \<open>The shared client module\<close>

record supabase_client =
  client_url :: string
  client_key :: string

definition createClient :: "string \<Rightarrow> string \<Rightarrow> supabase_client" where
  "createClient url key = \<lparr>client_url = url, client_key = key\<rparr>"

text \<open>Loading \<open>utils/supabaseClient.js\<close>: the thrown error's message, or the export.\<close>

definition supabaseClient_module :: "process_env \<Rightarrow> string + supabase_client" where
  "supabaseClient_module pe =
     (let supabaseUrl = SUPABASE_URL pe;
          supabaseKey = SUPABASE_SERVICE_KEY pe
      in if \<not> truthy supabaseUrl \<or> \<not> truthy supabaseKey
         then Inl ''Missing Supabase credentials. Please check your environment variables.''
         else Inr (createClient (js_string supabaseUrl) (js_string supabaseKey)))"

section \<open>The workflow as the specification words it\<close>

text \<open>
  The seven calls of a complete run for the account \<open>T\<close>, in the order of the
  specification's algorithm.
\<close>

definition planned_calls :: "string \<Rightarrow> call list" where
  "planned_calls T =
     [Delete Posts (Eq ''user_id'' T),
      Delete Likes (Eq ''user_id'' T),
      Delete Comments (Eq ''user_id'' T),
      Delete Bookmarks (Eq ''user_id'' T),
      Delete Subscribers (Or (Eq ''subscriber_id'' T) (Eq ''creator_id'' T)),
      Delete Users (Eq ''id'' T),
      AuthAdminDeleteUser T]"

text \<open>The number of the step that deletes from a table.\<close>

fun step_no :: "table \<Rightarrow> nat" where
  "step_no Posts = 1"
| "step_no Likes = 2"
| "step_no Comments = 3"
| "step_no Bookmarks = 4"
| "step_no Subscribers = 5"
| "step_no Users = 6"

definition workflow_order :: "table list" where
  "workflow_order = [Posts, Likes, Comments, Bookmarks, Subscribers, Users]"

text \<open>How many of the six deletions the store lets through before it first reports an error.\<close>

definition steps_passed :: "env \<Rightarrow> nat" where
  "steps_passed env = length (takeWhile (\<lambda>t. delete_error env t = None) workflow_order)"

text \<open>
  When a row of a table references the account \<open>A\<close>: by \<open>user_id\<close> for posts, likes,
  comments and bookmarks, in either role for a subscription, by \<open>id\<close> for the account row.
\<close>

fun referencing :: "string \<Rightarrow> table \<Rightarrow> row \<Rightarrow> bool" where
  "referencing A Posts r = (col r ''user_id'' = Some A)"
| "referencing A Likes r = (col r ''user_id'' = Some A)"
| "referencing A Comments r = (col r ''user_id'' = Some A)"
| "referencing A Bookmarks r = (col r ''user_id'' = Some A)"
| "referencing A Subscribers r = (col r ''subscriber_id'' = Some A \<or> col r ''creator_id'' = Some A)"
| "referencing A Users r = (col r ''id'' = Some A)"

text \<open>The identifier the handlers take for the actor: \<open>req.user.userId || req.user.id\<close>.\<close>

definition actor_id :: "token_payload \<Rightarrow> jsstr" where
  "actor_id user = js_or (claim_userId user) (claim_id user)"

section \<open>A concrete scenario\<close>

text \<open>
  Account \<open>u1\<close> owns two posts, three likes, one comment and no bookmark, subscribes to
  \<open>u2\<close> and has \<open>u3\<close> as a subscriber; \<open>u2\<close> has rows of its own in every table.
\<close>

definition scenario_store :: store where
  "scenario_store =
     \<lparr>posts = [[(''id'', ''p1''), (''user_id'', ''u1'')],
               [(''id'', ''p2''), (''user_id'', ''u2'')],
               [(''id'', ''p3''), (''user_id'', ''u1'')]],
      likes = [[(''user_id'', ''u1''), (''post_id'', ''p1'')],
               [(''user_id'', ''u1''), (''post_id'', ''p2'')],
               [(''user_id'', ''u2''), (''post_id'', ''p1'')],
               [(''user_id'', ''u1''), (''post_id'', ''p3'')]],
      comments = [[(''id'', ''c1''), (''user_id'', ''u2''), (''post_id'', ''p1'')],
                  [(''id'', ''c2''), (''user_id'', ''u1''), (''post_id'', ''p2'')]],
      bookmarks = [[(''user_id'', ''u2''), (''post_id'', ''p3'')]],
      subscribers = [[(''subscriber_id'', ''u1''), (''creator_id'', ''u2'')],
                     [(''subscriber_id'', ''u2''), (''creator_id'', ''u3'')],
                     [(''subscriber_id'', ''u3''), (''creator_id'', ''u1'')]],
      users = [[(''id'', ''u1''), (''username'', ''ann'')],
               [(''id'', ''u2''), (''username'', ''bob'')]],
      auth_users = [''u1'', ''u2''],
      calls = []\<rparr>"

definition payload_u1 :: token_payload where
  "payload_u1 = \<lparr>claim_userId = Some ''u1'', claim_id = None\<rparr>"

definition payload_u2 :: token_payload where
  "payload_u2 = \<lparr>claim_userId = None, claim_id = Some ''u2''\<rparr>"

text \<open>An environment in which nothing fails and two tokens verify.\<close>

definition quiet_env :: env where
  "quiet_env =
     \<lparr>delete_error = (\<lambda>t. None),
      auth_delete_error = None,
      jwt_verify = (\<lambda>token secret.
         if secret = ''your-secret-key'' \<and> token = ''t1'' then Some payload_u1
         else if secret = ''your-secret-key'' \<and> token = ''t2'' then Some payload_u2
         else None),
      process_env = \<lparr>SUPABASE_URL = Some ''https://db.example'',
                     SUPABASE_SERVICE_KEY = Some ''service-key'',
                     JWT_SECRET = None\<rparr>\<rparr>"

text \<open>The same, except that the store reports an error for deletes on one table.\<close>

definition failing_env :: "table \<Rightarrow> string \<Rightarrow> env" where
  "failing_env t msg =
     quiet_env\<lparr>delete_error := (\<lambda>u. if u = t then Some msg else None)\<rparr>"

text \<open>The same as the quiet one, except that the identity service fails.\<close>

definition auth_failing_env :: env where
  "auth_failing_env = quiet_env\<lparr>auth_delete_error := Some ''User not allowed''\<rparr>"

text \<open>A request that carries a bearer token and names a target account in its path.\<close>

definition bearer_request :: "string \<Rightarrow> string \<Rightarrow> request" where
  "bearer_request token target =
     \<lparr>authorization = Some (''Bearer '' @ token), param_userId = target\<rparr>"

section \<open>How a run of the workflow unfolds\<close>

lemma delete_by_userId_self:
  assumes "actor_id user = Some T"
  shows "delete_by_userId env T user s = delete_profile env user s"
proof -
  have a: "js_or (claim_userId user) (claim_id user) = Some T"
    using assms by (simp add: actor_id_def)
  show ?thesis
    unfolding delete_by_userId_def delete_profile_def Let_def a js_string.simps by simp
qed

lemma delete_by_userId_other:
  assumes "actor_id user \<noteq> Some T"
  shows "delete_by_userId env T user s = (only_own_account, s)"
  using assms by (auto simp add: delete_by_userId_def actor_id_def)

lemma status_simps:
  "status account_deleted = 200" "status (error_deleting m) = 500"
  "status only_own_account = 403" "status access_denied = 401" "status invalid_token = 403"
  by (simp_all add: account_deleted_def error_deleting_def only_own_account_def
        access_denied_def invalid_token_def)

lemma fst_supabase_delete:
  "fst (supabase_delete env t f s) = delete_error env t"
  by (simp add: supabase_delete_def Let_def split: option.splits)

lemma calls_supabase_delete:
  "calls (snd (supabase_delete env t f s)) = calls s @ [Delete t f]"
  by (cases t) (simp_all add: supabase_delete_def Let_def split: option.splits)

lemma auth_users_supabase_delete:
  "auth_users (snd (supabase_delete env t f s)) = auth_users s"
  by (cases t) (simp_all add: supabase_delete_def Let_def split: option.splits)

lemma rows_supabase_delete:
  "rows u (snd (supabase_delete env t f s)) =
     (if u = t \<and> delete_error env t = None
      then filter (\<lambda>r. \<not> matches f r) (rows u s) else rows u s)"
  by (cases t; cases u) (simp_all add: supabase_delete_def Let_def split: option.splits)

lemma calls_auth_admin_deleteUser:
  "calls (snd (auth_admin_deleteUser env uid s)) = calls s @ [AuthAdminDeleteUser uid]"
  by (simp add: auth_admin_deleteUser_def Let_def split: option.splits)

lemma rows_auth_admin_deleteUser:
  "rows u (snd (auth_admin_deleteUser env uid s)) = rows u s"
  by (cases u) (simp_all add: auth_admin_deleteUser_def Let_def split: option.splits)

lemma auth_users_auth_admin_deleteUser:
  "auth_users (snd (auth_admin_deleteUser env uid s)) =
     (if auth_delete_error env = None then removeAll uid (auth_users s) else auth_users s)"
  by (simp add: auth_admin_deleteUser_def Let_def split: option.splits)

lemma failure_cases:
  obtains
    (posts) m where "delete_error env Posts = Some m"
  | (likes) m where "delete_error env Posts = None" "delete_error env Likes = Some m"
  | (comments) m where "delete_error env Posts = None" "delete_error env Likes = None"
      "delete_error env Comments = Some m"
  | (bookmarks) m where "delete_error env Posts = None" "delete_error env Likes = None"
      "delete_error env Comments = None" "delete_error env Bookmarks = Some m"
  | (subscribers) m where "delete_error env Posts = None" "delete_error env Likes = None"
      "delete_error env Comments = None" "delete_error env Bookmarks = None"
      "delete_error env Subscribers = Some m"
  | (users) m where "delete_error env Posts = None" "delete_error env Likes = None"
      "delete_error env Comments = None" "delete_error env Bookmarks = None"
      "delete_error env Subscribers = None" "delete_error env Users = Some m"
  | (none) "delete_error env Posts = None" "delete_error env Likes = None"
      "delete_error env Comments = None" "delete_error env Bookmarks = None"
      "delete_error env Subscribers = None" "delete_error env Users = None"
  by (cases "delete_error env Posts"; cases "delete_error env Likes";
      cases "delete_error env Comments"; cases "delete_error env Bookmarks";
      cases "delete_error env Subscribers"; cases "delete_error env Users") blast+


lemma steps_passed_simps:
  "delete_error env Posts = Some m \<Longrightarrow> steps_passed env = 0"
  "delete_error env Posts = None \<Longrightarrow> delete_error env Likes = Some m \<Longrightarrow> steps_passed env = 1"
  "delete_error env Posts = None \<Longrightarrow> delete_error env Likes = None \<Longrightarrow>
     delete_error env Comments = Some m \<Longrightarrow> steps_passed env = 2"
  "delete_error env Posts = None \<Longrightarrow> delete_error env Likes = None \<Longrightarrow>
     delete_error env Comments = None \<Longrightarrow> delete_error env Bookmarks = Some m \<Longrightarrow>
     steps_passed env = 3"
  "delete_error env Posts = None \<Longrightarrow> delete_error env Likes = None \<Longrightarrow>
     delete_error env Comments = None \<Longrightarrow> delete_error env Bookmarks = None \<Longrightarrow>
     delete_error env Subscribers = Some m \<Longrightarrow> steps_passed env = 4"
  "delete_error env Posts = None \<Longrightarrow> delete_error env Likes = None \<Longrightarrow>
     delete_error env Comments = None \<Longrightarrow> delete_error env Bookmarks = None \<Longrightarrow>
     delete_error env Subscribers = None \<Longrightarrow> delete_error env Users = Some m \<Longrightarrow>
     steps_passed env = 5"
  "delete_error env Posts = None \<Longrightarrow> delete_error env Likes = None \<Longrightarrow>
     delete_error env Comments = None \<Longrightarrow> delete_error env Bookmarks = None \<Longrightarrow>
     delete_error env Subscribers = None \<Longrightarrow> delete_error env Users = None \<Longrightarrow>
     steps_passed env = 6"
  by (simp_all add: steps_passed_def workflow_order_def)

lemmas run_simps =
  delete_profile_def Let_def case_prod_beta fst_supabase_delete

lemma profile_response:
  "fst (delete_profile env user s) =
     (if steps_passed env = 6 then account_deleted
      else error_deleting (the (delete_error env (workflow_order ! steps_passed env))))"
  by (cases rule: failure_cases [of env])
     (simp_all add: run_simps steps_passed_simps workflow_order_def)

lemma profile_rows:
  "rows t (snd (delete_profile env user s)) =
     (if step_no t \<le> steps_passed env
      then filter (\<lambda>r. \<not> referencing (js_string (actor_id user)) t r) (rows t s)
      else rows t s)"
  by (cases rule: failure_cases [of env]; cases t)
     (simp_all add: run_simps steps_passed_simps actor_id_def rows_supabase_delete
        rows_auth_admin_deleteUser)

lemma profile_calls:
  "calls (snd (delete_profile env user s)) =
     calls s @ take (Suc (steps_passed env)) (planned_calls (js_string (actor_id user)))"
  by (cases rule: failure_cases [of env])
     (simp_all add: run_simps steps_passed_simps actor_id_def planned_calls_def
        calls_supabase_delete calls_auth_admin_deleteUser)

lemma profile_auth_users:
  "auth_users (snd (delete_profile env user s)) =
     (if steps_passed env = 6 \<and> auth_delete_error env = None
      then removeAll (js_string (actor_id user)) (auth_users s)
      else auth_users s)"
  by (cases rule: failure_cases [of env])
     (simp_all add: run_simps steps_passed_simps actor_id_def auth_users_supabase_delete
        auth_users_auth_admin_deleteUser)

section \<open>Authentication and authorisation of the deletion routes\<close>

lemma route_delete_userId_authenticated:
  "authenticateToken env req = Inr user \<Longrightarrow>
   route_delete_userId env req s = delete_by_userId env (param_userId req) user s"
  by (simp add: route_delete_userId_def)

lemma route_delete_profile_authenticated:
  "authenticateToken env req = Inr user \<Longrightarrow>
   route_delete_profile env req s = delete_profile env user s"
  by (simp add: route_delete_profile_def)

lemma authenticate_t2:
  "authenticateToken quiet_env (bearer_request ''t2'' target) = Inr payload_u2"
  by (simp add: authenticateToken_def bearer_request_def header_token_def js_index_def
        quiet_env_def jwt_secret_def js_or_def Let_def)

lemma authenticate_t1:
  "authenticateToken quiet_env (bearer_request ''t1'' target) = Inr payload_u1"
  by (simp add: authenticateToken_def bearer_request_def header_token_def js_index_def
        quiet_env_def jwt_secret_def js_or_def Let_def)

lemma actor_u1: "actor_id payload_u1 = Some ''u1''"
  by (simp add: actor_id_def payload_u1_def js_or_def)

lemma actor_u2: "actor_id payload_u2 = Some ''u2''"
  by (simp add: actor_id_def payload_u2_def js_or_def)

text \<open>
  Claim C2. A request to \<open>DELETE /:userId\<close> whose verified actor differs from the target
  named in the path is answered 403 with the own-account message, and the store, the
  record of issued calls included, is exactly what it was: no deletion is issued.
\<close>

theorem other_account_forbidden:
  assumes "authenticateToken env req = Inr user"
    and "actor_id user \<noteq> Some (param_userId req)"
  shows "route_delete_userId env req s =
           (\<lparr>status = 403, body = [(''message'', ''You can only delete your own account'')]\<rparr>, s)"
  using assms
  by (simp add: route_delete_userId_authenticated delete_by_userId_other only_own_account_def)

theorem other_account_forbidden_witness:
  "authenticateToken quiet_env (bearer_request ''t2'' ''u1'') = Inr payload_u2 \<and>
   actor_id payload_u2 \<noteq> Some (param_userId (bearer_request ''t2'' ''u1'')) \<and>
   route_delete_userId quiet_env (bearer_request ''t2'' ''u1'') scenario_store =
     (\<lparr>status = 403, body = [(''message'', ''You can only delete your own account'')]\<rparr>,
      scenario_store)"
proof -
  have h1: "authenticateToken quiet_env (bearer_request ''t2'' ''u1'') = Inr payload_u2"
    by (rule authenticate_t2)
  have h2: "actor_id payload_u2 \<noteq> Some (param_userId (bearer_request ''t2'' ''u1''))"
    by (simp add: actor_u2 bearer_request_def)
  show ?thesis
    using other_account_forbidden [OF h1 h2, of scenario_store] h1 h2 by simp
qed

text \<open>
  Claim C7. For an authenticated request whose path target is the actor's own identifier,
  the \<open>/:userId\<close> route and the \<open>/profile\<close> route give the same response and the same
  final store.
\<close>

theorem routes_agree_on_own_account:
  assumes "authenticateToken env req = Inr user"
    and "actor_id user = Some (param_userId req)"
  shows "route_delete_userId env req s = route_delete_profile env req s"
  using assms
  by (simp add: route_delete_userId_authenticated route_delete_profile_authenticated
        delete_by_userId_self)

theorem routes_agree_on_own_account_witness:
  "authenticateToken quiet_env (bearer_request ''t1'' ''u1'') = Inr payload_u1 \<and>
   actor_id payload_u1 = Some (param_userId (bearer_request ''t1'' ''u1'')) \<and>
   route_delete_userId quiet_env (bearer_request ''t1'' ''u1'') scenario_store =
     route_delete_profile quiet_env (bearer_request ''t1'' ''u1'') scenario_store"
proof -
  have h1: "authenticateToken quiet_env (bearer_request ''t1'' ''u1'') = Inr payload_u1"
    by (rule authenticate_t1)
  have h2: "actor_id payload_u1 = Some (param_userId (bearer_request ''t1'' ''u1''))"
    by (simp add: actor_u1 bearer_request_def)
  show ?thesis
    using routes_agree_on_own_account [OF h1 h2, of scenario_store] h1 h2 by simp
qed

text \<open>
  Claim C10. Loading the shared client module throws when \<open>SUPABASE_URL\<close> or
  \<open>SUPABASE_SERVICE_KEY\<close> is absent; whenever it exports a client, both variables were
  present and non-empty and the client was built from exactly them.
\<close>

theorem client_module_fails_fast:
  "(SUPABASE_URL pe = None \<or> SUPABASE_SERVICE_KEY pe = None \<longrightarrow>
      supabaseClient_module pe =
        Inl ''Missing Supabase credentials. Please check your environment variables.'') \<and>
   (\<forall>c. supabaseClient_module pe = Inr c \<longrightarrow>
      SUPABASE_URL pe = Some (client_url c) \<and> SUPABASE_SERVICE_KEY pe = Some (client_key c) \<and>
      client_url c \<noteq> [] \<and> client_key c \<noteq> [])"
  by (cases "SUPABASE_URL pe"; cases "SUPABASE_SERVICE_KEY pe")
     (auto simp add: supabaseClient_module_def createClient_def Let_def)

theorem client_module_fails_fast_witness:
  "supabaseClient_module (process_env quiet_env\<lparr>SUPABASE_SERVICE_KEY := None\<rparr>) =
     Inl ''Missing Supabase credentials. Please check your environment variables.'' \<and>
   supabaseClient_module (process_env quiet_env) =
     Inr \<lparr>client_url = ''https://db.example'', client_key = ''service-key''\<rparr> \<and>
   SUPABASE_URL (process_env quiet_env) = Some ''https://db.example'' \<and>
   SUPABASE_SERVICE_KEY (process_env quiet_env) = Some ''service-key''"
proof -
  have e: "supabaseClient_module (process_env quiet_env) =
             Inr \<lparr>client_url = ''https://db.example'', client_key = ''service-key''\<rparr>"
    by (simp add: supabaseClient_module_def createClient_def quiet_env_def)
  have m: "SUPABASE_URL (process_env quiet_env\<lparr>SUPABASE_SERVICE_KEY := None\<rparr>) = None \<or>
           SUPABASE_SERVICE_KEY (process_env quiet_env\<lparr>SUPABASE_SERVICE_KEY := None\<rparr>) = None"
    by simp
  show ?thesis
    using client_module_fails_fast [of "process_env quiet_env\<lparr>SUPABASE_SERVICE_KEY := None\<rparr>"]
      client_module_fails_fast [of "process_env quiet_env"] e m
    by auto
qed

text \<open>
  Claim C8. On both deletion routes, a request with no authorization header, or whose
  header yields no token, is answered 401; a request whose token \<open>jwt.verify\<close> rejects is
  answered 403. In both cases the store is unchanged and no call was issued.
\<close>

theorem unauthenticated_requests_rejected:
  "(authorization req = None \<or> \<not> truthy (header_token (authorization req)) \<longrightarrow>
      route_delete_profile env req s =
        (\<lparr>status = 401, body = [(''message'', ''Access denied'')]\<rparr>, s) \<and>
      route_delete_userId env req s =
        (\<lparr>status = 401, body = [(''message'', ''Access denied'')]\<rparr>, s)) \<and>
   (truthy (header_token (authorization req)) \<and>
    jwt_verify env (js_string (header_token (authorization req))) (jwt_secret env) = None \<longrightarrow>
      route_delete_profile env req s =
        (\<lparr>status = 403, body = [(''message'', ''Invalid token'')]\<rparr>, s) \<and>
      route_delete_userId env req s =
        (\<lparr>status = 403, body = [(''message'', ''Invalid token'')]\<rparr>, s))"
  by (auto simp add: route_delete_profile_def route_delete_userId_def authenticateToken_def
        access_denied_def invalid_token_def header_token_def Let_def)

theorem unauthenticated_requests_rejected_witness:
  "authorization \<lparr>authorization = None, param_userId = ''u1''\<rparr> = None \<and>
   route_delete_profile quiet_env \<lparr>authorization = None, param_userId = ''u1''\<rparr> scenario_store =
     (\<lparr>status = 401, body = [(''message'', ''Access denied'')]\<rparr>, scenario_store) \<and>
   route_delete_userId quiet_env \<lparr>authorization = None, param_userId = ''u1''\<rparr> scenario_store =
     (\<lparr>status = 401, body = [(''message'', ''Access denied'')]\<rparr>, scenario_store) \<and>
   header_token (authorization (bearer_request ''expired'' ''u1'')) = Some ''expired'' \<and>
   jwt_verify quiet_env ''expired'' (jwt_secret quiet_env) = None \<and>
   route_delete_profile quiet_env (bearer_request ''expired'' ''u1'') scenario_store =
     (\<lparr>status = 403, body = [(''message'', ''Invalid token'')]\<rparr>, scenario_store) \<and>
   route_delete_userId quiet_env (bearer_request ''expired'' ''u1'') scenario_store =
     (\<lparr>status = 403, body = [(''message'', ''Invalid token'')]\<rparr>, scenario_store)"
proof -
  have t: "header_token (authorization (bearer_request ''expired'' ''u1'')) = Some ''expired''"
    by (simp add: header_token_def bearer_request_def js_index_def)
  have v: "jwt_verify quiet_env ''expired'' (jwt_secret quiet_env) = None"
    by (simp add: quiet_env_def)
  show ?thesis
    using unauthenticated_requests_rejected
            [of "\<lparr>authorization = None, param_userId = ''u1''\<rparr>" quiet_env scenario_store]
      unauthenticated_requests_rejected
            [of "bearer_request ''expired'' ''u1''" quiet_env scenario_store] t v
    by simp
qed

section \<open>The deletion workflow\<close>

lemma steps_passed_le: "steps_passed env \<le> 6"
  unfolding steps_passed_def workflow_order_def
  using length_takeWhile_le [of "\<lambda>t. delete_error env t = None" "[Posts, Likes, Comments, Bookmarks, Subscribers, Users]"]
  by simp

lemma steps_passed_all:
  "steps_passed env = 6 \<longleftrightarrow> (\<forall>t. delete_error env t = None)"
proof
  assume h: "steps_passed env = 6"
  show "\<forall>t. delete_error env t = None"
  proof
    fix t
    show "delete_error env t = None"
      using h by (cases rule: failure_cases [of env]; cases t) (simp_all add: steps_passed_simps)
  qed
next
  assume "\<forall>t. delete_error env t = None"
  then show "steps_passed env = 6"
    by (simp add: steps_passed_simps)
qed

lemma profile_status:
  "status (fst (delete_profile env user s)) = (if steps_passed env = 6 then 200 else 500)"
  by (simp add: profile_response status_simps)

lemma steps_passed_first_error:
  assumes "delete_error env t = Some msg"
    and "\<forall>u. step_no u < step_no t \<longrightarrow> delete_error env u = None"
  shows "Suc (steps_passed env) = step_no t \<and> workflow_order ! steps_passed env = t"
proof (cases t)
  case Posts
  then show ?thesis using assms(1) by (simp add: steps_passed_simps workflow_order_def)
next
  case Likes
  moreover have "delete_error env Posts = None" using assms(2) Likes by simp
  ultimately show ?thesis using assms(1) by (simp add: steps_passed_simps workflow_order_def)
next
  case Comments
  moreover have "delete_error env Posts = None" "delete_error env Likes = None"
    using assms(2) Comments by simp_all
  ultimately show ?thesis using assms(1) by (simp add: steps_passed_simps workflow_order_def)
next
  case Bookmarks
  moreover have "delete_error env Posts = None" "delete_error env Likes = None"
    "delete_error env Comments = None"
    using assms(2) Bookmarks by simp_all
  ultimately show ?thesis using assms(1) by (simp add: steps_passed_simps workflow_order_def)
next
  case Subscribers
  moreover have "delete_error env Posts = None" "delete_error env Likes = None"
    "delete_error env Comments = None" "delete_error env Bookmarks = None"
    using assms(2) Subscribers by simp_all
  ultimately show ?thesis using assms(1) by (simp add: steps_passed_simps workflow_order_def)
next
  case Users
  moreover have "delete_error env Posts = None" "delete_error env Likes = None"
    "delete_error env Comments = None" "delete_error env Bookmarks = None"
    "delete_error env Subscribers = None"
    using assms(2) Users by simp_all
  ultimately show ?thesis using assms(1) by (simp add: steps_passed_simps workflow_order_def)
qed

lemma filter_referencing_removed:
  "filter (referencing A t) (filter (\<lambda>r. \<not> referencing A t r) xs) = []"
  by (induction xs) simp_all

lemma step_no_le_6: "step_no t \<le> 6"
  by (cases t) simp_all

text \<open>
  Claim C1. When a run of the deletion workflow answers 200, the final store holds no
  post, like, comment or bookmark whose \<open>user_id\<close> is the deleted account, no subscription
  naming it as subscriber or as creator, and no account row with its \<open>id\<close>. This holds
  for the \<open>/profile\<close> handler (the account is the actor) and for the \<open>/:userId\<close> handler
  (the account is the path target).
\<close>

theorem successful_deletion_leaves_no_reference:
  "(status (fst (delete_profile env user s)) = 200 \<longrightarrow>
      (\<forall>t. filter (referencing (js_string (actor_id user)) t)
             (rows t (snd (delete_profile env user s))) = [])) \<and>
   (status (fst (delete_by_userId env A user s)) = 200 \<longrightarrow>
      (\<forall>t. filter (referencing A t) (rows t (snd (delete_by_userId env A user s))) = []))"
proof -
  have p: "filter (referencing (js_string (actor_id u)) t) (rows t (snd (delete_profile env u z))) = []"
    if "status (fst (delete_profile env u z)) = 200" for u z t
  proof -
    have "steps_passed env = 6"
      using that by (simp add: profile_status split: if_splits)
    then show ?thesis
      by (simp add: profile_rows step_no_le_6 filter_referencing_removed)
  qed
  have q: "filter (referencing A t) (rows t (snd (delete_by_userId env A user s))) = []"
    if h: "status (fst (delete_by_userId env A user s)) = 200" for t
  proof (cases "actor_id user = Some A")
    case True
    then have "delete_by_userId env A user s = delete_profile env user s"
      by (rule delete_by_userId_self)
    moreover have "js_string (actor_id user) = A" using True by simp
    ultimately show ?thesis using p [of user s t] h by simp
  next
    case False
    then show ?thesis using h by (simp add: delete_by_userId_other status_simps)
  qed
  show ?thesis using p q by blast
qed

text \<open>
  Claim C9. Whatever the store reports and however the run ends, every row that does not
  reference the target account is still in its table afterwards, unmodified and in its
  place among the other such rows. This holds for both handlers, for every table.
\<close>

theorem unrelated_rows_untouched:
  "filter (\<lambda>r. \<not> referencing (js_string (actor_id user)) t r)
      (rows t (snd (delete_profile env user s))) =
   filter (\<lambda>r. \<not> referencing (js_string (actor_id user)) t r) (rows t s) \<and>
   filter (\<lambda>r. \<not> referencing T t r) (rows t (snd (delete_by_userId env T user s))) =
   filter (\<lambda>r. \<not> referencing T t r) (rows t s)"
proof -
  have p: "filter (\<lambda>r. \<not> referencing (js_string (actor_id user)) t r)
      (rows t (snd (delete_profile env user s))) =
   filter (\<lambda>r. \<not> referencing (js_string (actor_id user)) t r) (rows t s)"
    by (simp add: profile_rows)
  have q: "filter (\<lambda>r. \<not> referencing T t r) (rows t (snd (delete_by_userId env T user s))) =
   filter (\<lambda>r. \<not> referencing T t r) (rows t s)"
  proof (cases "actor_id user = Some T")
    case True
    then have "delete_by_userId env T user s = delete_profile env user s"
      by (rule delete_by_userId_self)
    moreover have "js_string (actor_id user) = T" using True by simp
    ultimately show ?thesis using p by simp
  next
    case False
    then show ?thesis by (simp add: delete_by_userId_other)
  qed
  show ?thesis using p q by simp
qed

text \<open>
  Claim C5. If the store reports no error for the six deletions and the identity service
  fails, the response is still status 200 with exactly the payload
  \<open>{ message: "Account successfully deleted" }\<close>; the credential record stays.
\<close>

theorem credential_failure_still_success:
  assumes "\<forall>t. delete_error env t = None"
    and "auth_delete_error env = Some e"
  shows "fst (delete_profile env user s) =
           \<lparr>status = 200, body = [(''message'', ''Account successfully deleted'')]\<rparr> \<and>
         auth_users (snd (delete_profile env user s)) = auth_users s \<and>
         (actor_id user = Some T \<longrightarrow>
            fst (delete_by_userId env T user s) =
              \<lparr>status = 200, body = [(''message'', ''Account successfully deleted'')]\<rparr>)"
proof -
  have six: "steps_passed env = 6"
    using assms(1) by (simp add: steps_passed_all)
  have r: "fst (delete_profile env user s) =
           \<lparr>status = 200, body = [(''message'', ''Account successfully deleted'')]\<rparr>"
    using six by (simp add: profile_response account_deleted_def)
  have a: "auth_users (snd (delete_profile env user s)) = auth_users s"
    using assms(2) by (simp add: profile_auth_users)
  show ?thesis using r a by (simp add: delete_by_userId_self)
qed

text \<open>
  Claim C4. A run issues its calls in the fixed order posts, likes, comments, bookmarks,
  subscriptions (either role), account row, credential removal: the calls it adds to the
  record are an initial segment of that plan, starting with the delete on posts whatever
  the store holds, with no read before or between them, and the whole plan when the store
  reports no error.
\<close>

theorem deletions_issued_in_order:
  "calls (snd (delete_profile env user s)) =
     calls s @ take (Suc (steps_passed env)) (planned_calls (js_string (actor_id user))) \<and>
   ((\<forall>t. delete_error env t = None) \<longrightarrow>
      calls (snd (delete_profile env user s)) =
        calls s @ planned_calls (js_string (actor_id user)))"
proof -
  have "take (Suc (steps_passed env)) (planned_calls T) = planned_calls T"
    if "\<forall>t. delete_error env t = None" for T
    using that by (simp add: steps_passed_all [symmetric] planned_calls_def)
  then show ?thesis by (simp add: profile_calls)
qed

text \<open>
  Claim C3. If the store reports an error at one of the six deletions and at none before
  it, the response is status 500 carrying that error's message, the calls issued are
  exactly the steps up to and including the failing one, the tables of the earlier steps
  have lost the target's rows, and the tables of the failing and all later steps, as well
  as the credential records, are untouched.
\<close>

theorem first_failing_step_aborts:
  assumes "delete_error env t = Some msg"
    and "\<forall>u. step_no u < step_no t \<longrightarrow> delete_error env u = None"
  shows "fst (delete_profile env user s) =
           \<lparr>status = 500,
            body = [(''message'', ''Error deleting account''), (''error'', msg)]\<rparr> \<and>
         calls (snd (delete_profile env user s)) =
           calls s @ take (step_no t) (planned_calls (js_string (actor_id user))) \<and>
         (\<forall>u. rows u (snd (delete_profile env user s)) =
               (if step_no u < step_no t
                then filter (\<lambda>r. \<not> referencing (js_string (actor_id user)) u r) (rows u s)
                else rows u s)) \<and>
         auth_users (snd (delete_profile env user s)) = auth_users s"
proof -
  have k: "Suc (steps_passed env) = step_no t" and w: "workflow_order ! steps_passed env = t"
    using steps_passed_first_error [OF assms] by simp_all
  have n6: "steps_passed env \<noteq> 6"
    using k step_no_le_6 [of t] by simp
  have r: "fst (delete_profile env user s) = error_deleting msg"
    using n6 w assms(1) by (simp add: profile_response)
  have c: "calls (snd (delete_profile env user s)) =
           calls s @ take (step_no t) (planned_calls (js_string (actor_id user)))"
    using k by (simp add: profile_calls)
  have lt: "step_no u \<le> steps_passed env \<longleftrightarrow> step_no u < step_no t" for u
    using k by arith
  show ?thesis
    using r c n6 by (simp add: profile_rows lt profile_auth_users error_deleting_def)
qed

text \<open>
  Claim C6, as amended. After a run that answered 200, a second run for the same account
  in which the store reports no error removes no row in any of its six deletions, the
  delete of the account row included, and answers 200 with the confirmation again: the
  absence of the account row does not make the workflow fail.
\<close>

theorem second_run_succeeds_vacuously:
  assumes "status (fst (delete_profile env user s)) = 200"
    and "\<forall>t. delete_error env' t = None"
  shows "fst (delete_profile env' user (snd (delete_profile env user s))) =
           \<lparr>status = 200, body = [(''message'', ''Account successfully deleted'')]\<rparr> \<and>
         (\<forall>t. rows t (snd (delete_profile env' user (snd (delete_profile env user s)))) =
               rows t (snd (delete_profile env user s)))"
proof -
  have one: "steps_passed env = 6"
    using assms(1) by (simp add: profile_status split: if_splits)
  have two: "steps_passed env' = 6"
    using assms(2) by (simp add: steps_passed_all)
  show ?thesis
    using one two by (simp add: profile_response profile_rows step_no_le_6 account_deleted_def)
qed

lemma quiet_env_no_error: "\<forall>t. delete_error quiet_env t = None"
  by (simp add: quiet_env_def)

lemma auth_failing_env_no_error: "\<forall>t. delete_error auth_failing_env t = None"
  by (simp add: auth_failing_env_def quiet_env_def)

lemma failing_env_error: "delete_error (failing_env t msg) t = Some msg"
  by (simp add: failing_env_def)

lemma failing_env_other: "u \<noteq> t \<Longrightarrow> delete_error (failing_env t msg) u = None"
  by (simp add: failing_env_def)

lemma failing_env_earlier:
  "\<forall>u. step_no u < step_no t \<longrightarrow> delete_error (failing_env t msg) u = None"
  by (auto simp add: failing_env_def)

lemma js_actor_u1: "js_string (actor_id payload_u1) = ''u1''"
  by (simp add: actor_id_def payload_u1_def js_or_def)

lemmas scenario_simps = scenario_store_def col_def js_actor_u1

theorem successful_deletion_leaves_no_reference_witness:
  "status (fst (delete_profile quiet_env payload_u1 scenario_store)) = 200 \<and>
   status (fst (delete_by_userId quiet_env ''u1'' payload_u1 scenario_store)) = 200 \<and>
   (\<forall>t. filter (referencing ''u1'' t)
          (rows t (snd (delete_profile quiet_env payload_u1 scenario_store))) = []) \<and>
   (\<forall>t. filter (referencing ''u1'' t)
          (rows t (snd (delete_by_userId quiet_env ''u1'' payload_u1 scenario_store))) = [])"
proof -
  have h: "status (fst (delete_profile quiet_env payload_u1 scenario_store)) = 200"
    using quiet_env_no_error by (simp add: profile_status steps_passed_all)
  have e: "delete_by_userId quiet_env ''u1'' payload_u1 scenario_store =
           delete_profile quiet_env payload_u1 scenario_store"
    by (simp add: delete_by_userId_self actor_u1)
  show ?thesis
    using successful_deletion_leaves_no_reference
            [of quiet_env payload_u1 scenario_store "''u1''"] h e
    by (simp add: js_actor_u1)
qed

theorem unrelated_rows_untouched_witness:
  "filter (\<lambda>r. \<not> referencing ''u1'' Subscribers r)
      (rows Subscribers (snd (delete_profile quiet_env payload_u1 scenario_store))) =
     [[(''subscriber_id'', ''u2''), (''creator_id'', ''u3'')]] \<and>
   filter (\<lambda>r. \<not> referencing ''u1'' Subscribers r)
      (rows Subscribers (snd (delete_by_userId quiet_env ''u1'' payload_u2 scenario_store))) =
     [[(''subscriber_id'', ''u2''), (''creator_id'', ''u3'')]]"
  using unrelated_rows_untouched [of payload_u1 Subscribers quiet_env scenario_store]
    unrelated_rows_untouched [of payload_u2 Subscribers quiet_env scenario_store "''u1''"]
  by (simp add: scenario_simps)

theorem credential_failure_still_success_witness:
  "(\<forall>t. delete_error auth_failing_env t = None) \<and>
   auth_delete_error auth_failing_env = Some ''User not allowed'' \<and>
   actor_id payload_u1 = Some ''u1'' \<and>
   fst (delete_profile auth_failing_env payload_u1 scenario_store) =
     \<lparr>status = 200, body = [(''message'', ''Account successfully deleted'')]\<rparr> \<and>
   fst (delete_by_userId auth_failing_env ''u1'' payload_u1 scenario_store) =
     \<lparr>status = 200, body = [(''message'', ''Account successfully deleted'')]\<rparr> \<and>
   auth_users (snd (delete_profile auth_failing_env payload_u1 scenario_store)) = [''u1'', ''u2'']"
proof -
  have a: "auth_delete_error auth_failing_env = Some ''User not allowed''"
    by (simp add: auth_failing_env_def)
  show ?thesis
    using credential_failure_still_success
            [OF auth_failing_env_no_error a, of payload_u1 scenario_store "''u1''"]
      auth_failing_env_no_error a actor_u1
    by (simp add: scenario_store_def)
qed

theorem deletions_issued_in_order_witness:
  "(\<forall>t. delete_error quiet_env t = None) \<and>
   calls (snd (delete_profile quiet_env payload_u1 scenario_store)) =
     [Delete Posts (Eq ''user_id'' ''u1''),
      Delete Likes (Eq ''user_id'' ''u1''),
      Delete Comments (Eq ''user_id'' ''u1''),
      Delete Bookmarks (Eq ''user_id'' ''u1''),
      Delete Subscribers (Or (Eq ''subscriber_id'' ''u1'') (Eq ''creator_id'' ''u1'')),
      Delete Users (Eq ''id'' ''u1''),
      AuthAdminDeleteUser ''u1''] \<and>
   calls (snd (delete_profile (failing_env Bookmarks ''timeout'') payload_u1 scenario_store)) =
     [Delete Posts (Eq ''user_id'' ''u1''),
      Delete Likes (Eq ''user_id'' ''u1''),
      Delete Comments (Eq ''user_id'' ''u1''),
      Delete Bookmarks (Eq ''user_id'' ''u1'')]"
proof -
  have k: "steps_passed (failing_env Bookmarks ''timeout'') = 3"
    by (rule steps_passed_simps) (simp_all add: failing_env_def)
  have c0: "calls scenario_store = []"
    by (simp add: scenario_store_def)
  have c1: "calls (snd (delete_profile quiet_env payload_u1 scenario_store)) =
              calls scenario_store @ planned_calls ''u1''"
    using deletions_issued_in_order [of quiet_env payload_u1 scenario_store, unfolded js_actor_u1]
      quiet_env_no_error
    by blast
  have c2: "calls (snd (delete_profile (failing_env Bookmarks ''timeout'') payload_u1 scenario_store)) =
              calls scenario_store @ take 4 (planned_calls ''u1'')"
    using deletions_issued_in_order [of "failing_env Bookmarks ''timeout''" payload_u1 scenario_store] k
    by (simp add: js_actor_u1)
  show ?thesis
    using c1 c2 quiet_env_no_error by (simp add: c0 planned_calls_def)
qed

theorem first_failing_step_aborts_witness:
  "delete_error (failing_env Comments ''connection reset'') Comments = Some ''connection reset'' \<and>
   delete_error (failing_env Comments ''connection reset'') Posts = None \<and>
   delete_error (failing_env Comments ''connection reset'') Likes = None \<and>
   fst (delete_profile (failing_env Comments ''connection reset'') payload_u1 scenario_store) =
     \<lparr>status = 500,
      body = [(''message'', ''Error deleting account''), (''error'', ''connection reset'')]\<rparr> \<and>
   calls (snd (delete_profile (failing_env Comments ''connection reset'') payload_u1 scenario_store)) =
     [Delete Posts (Eq ''user_id'' ''u1''),
      Delete Likes (Eq ''user_id'' ''u1''),
      Delete Comments (Eq ''user_id'' ''u1'')] \<and>
   posts (snd (delete_profile (failing_env Comments ''connection reset'') payload_u1 scenario_store)) =
     [[(''id'', ''p2''), (''user_id'', ''u2'')]] \<and>
   likes (snd (delete_profile (failing_env Comments ''connection reset'') payload_u1 scenario_store)) =
     [[(''user_id'', ''u2''), (''post_id'', ''p1'')]] \<and>
   comments (snd (delete_profile (failing_env Comments ''connection reset'') payload_u1 scenario_store)) =
     comments scenario_store \<and>
   bookmarks (snd (delete_profile (failing_env Comments ''connection reset'') payload_u1 scenario_store)) =
     bookmarks scenario_store \<and>
   subscribers (snd (delete_profile (failing_env Comments ''connection reset'') payload_u1 scenario_store)) =
     subscribers scenario_store \<and>
   users (snd (delete_profile (failing_env Comments ''connection reset'') payload_u1 scenario_store)) =
     users scenario_store \<and>
   auth_users (snd (delete_profile (failing_env Comments ''connection reset'') payload_u1 scenario_store)) =
     auth_users scenario_store"
proof -
  let ?env = "failing_env Comments ''connection reset''"
  let ?s = "snd (delete_profile ?env payload_u1 scenario_store)"
  have h1: "delete_error ?env Comments = Some ''connection reset''"
    by (rule failing_env_error)
  have h2: "\<forall>u. step_no u < step_no Comments \<longrightarrow> delete_error ?env u = None"
    by (rule failing_env_earlier)
  note th = first_failing_step_aborts [OF h1 h2, of payload_u1 scenario_store]
  have r: "rows u ?s =
             (if step_no u < step_no Comments
              then filter (\<lambda>r. \<not> referencing (js_string (actor_id payload_u1)) u r)
                     (rows u scenario_store)
              else rows u scenario_store)" for u
    using th by blast
  have "posts ?s = [[(''id'', ''p2''), (''user_id'', ''u2'')]]"
    using r [of Posts] by (simp add: scenario_simps)
  moreover have "likes ?s = [[(''user_id'', ''u2''), (''post_id'', ''p1'')]]"
    using r [of Likes] by (simp add: scenario_simps)
  moreover have "comments ?s = comments scenario_store"
    using r [of Comments] by simp
  moreover have "bookmarks ?s = bookmarks scenario_store"
    using r [of Bookmarks] by simp
  moreover have "subscribers ?s = subscribers scenario_store"
    using r [of Subscribers] by simp
  moreover have "users ?s = users scenario_store"
    using r [of Users] by simp
  moreover have "calls ?s =
     [Delete Posts (Eq ''user_id'' ''u1''),
      Delete Likes (Eq ''user_id'' ''u1''),
      Delete Comments (Eq ''user_id'' ''u1'')]"
    using th by (simp add: js_actor_u1 planned_calls_def scenario_store_def)
  ultimately show ?thesis
    using th h1 by (simp add: failing_env_other)
qed

theorem second_run_succeeds_vacuously_witness:
  "status (fst (delete_profile quiet_env payload_u1 scenario_store)) = 200 \<and>
   (\<forall>t. delete_error quiet_env t = None) \<and>
   fst (delete_profile quiet_env payload_u1
          (snd (delete_profile quiet_env payload_u1 scenario_store))) =
     \<lparr>status = 200, body = [(''message'', ''Account successfully deleted'')]\<rparr> \<and>
   (\<forall>t. rows t (snd (delete_profile quiet_env payload_u1
                       (snd (delete_profile quiet_env payload_u1 scenario_store)))) =
        rows t (snd (delete_profile quiet_env payload_u1 scenario_store)))"
proof -
  have h: "status (fst (delete_profile quiet_env payload_u1 scenario_store)) = 200"
    using quiet_env_no_error by (simp add: profile_status steps_passed_all)
  show ?thesis
    using second_run_succeeds_vacuously [OF h quiet_env_no_error] h quiet_env_no_error
    by simp
qed

text \<open>
  Claim C6 as stated, on the scenario: the first run removes the account row of \<open>u1\<close> and
  answers 200, and so does the second, although no account row for \<open>u1\<close> remains.
\<close>

theorem second_run_not_a_failure:
  "fst (delete_profile quiet_env payload_u1 scenario_store) =
     \<lparr>status = 200, body = [(''message'', ''Account successfully deleted'')]\<rparr> \<and>
   users (snd (delete_profile quiet_env payload_u1 scenario_store)) =
     [[(''id'', ''u2''), (''username'', ''bob'')]] \<and>
   fst (delete_profile quiet_env payload_u1
          (snd (delete_profile quiet_env payload_u1 scenario_store))) =
     \<lparr>status = 200, body = [(''message'', ''Account successfully deleted'')]\<rparr>"
proof -
  have six: "steps_passed quiet_env = 6"
    using quiet_env_no_error by (simp add: steps_passed_all)
  have u: "users (snd (delete_profile quiet_env payload_u1 scenario_store)) =
           [[(''id'', ''u2''), (''username'', ''bob'')]]"
    using profile_rows [of Users quiet_env payload_u1 scenario_store] six
    by (simp add: scenario_simps)
  show ?thesis
    using six u by (simp add: profile_response account_deleted_def)
qed

end
